theory Spec2Isabelle
  imports Complex_Main
begin

section \<open>Values shared by the models\<close>

text \<open>
  A JavaScript \<open>Number\<close> is modelled as an exact rational: the arithmetic of the
  handlers is \<open>+\<close>, \<open>-\<close>, \<open>*\<close> and comparisons, and IEEE rounding is left out.
  A document id (\<open>ObjectId\<close>) is a natural number.
\<close>

type_synonym number = rat
type_synonym objectId = nat

text \<open>
  What a model method can throw: \<open>new Error(message)\<close>, a Mongoose validation error
  (with the paths whose validators failed) and a duplicate key on a unique index.
\<close>

datatype exn =
    Error string
  | ValidationError "string list"
  | DuplicateKey string

text \<open>
  The error responses of the route handlers: the 400 responses of the order routes, a
  404 with its message, and the 500 of a \<open>catch\<close> block, which keeps the exception.
\<close>

datatype failure =
    ProductNotFound objectId
  | InsufficientStock string number
  | NotPending
  | NotFound string
  | ServerError exn

fun statusCode :: "failure \<Rightarrow> nat" where
  "statusCode (ProductNotFound _) = 400"
| "statusCode (InsufficientStock _ _) = 400"
| "statusCode NotPending = 400"
| "statusCode (NotFound _) = 404"
| "statusCode (ServerError _) = 500"

section \<open>Product (the product schema and its methods)\<close>

text \<open>
  The fields of the product schema that the stock and order code reads or writes, and
  the validators the schema declares on them. Description, category, supplier, unit,
  image and tags are never touched by that code and are left out.
\<close>

record product =
  name :: string
  sku :: string
  price :: number
  cost :: number
  stockQuantity :: number
  minStockLevel :: number
  isActive :: bool

definition productErrors :: "product \<Rightarrow> string list" where
  "productErrors p =
     (if name p = [] \<or> 100 < length (name p) then [''name''] else []) @
     (if sku p = [] then [''sku''] else []) @
     (if price p < 0 then [''price''] else []) @
     (if cost p < 0 then [''cost''] else []) @
     (if stockQuantity p < 0 then [''stockQuantity''] else []) @
     (if minStockLevel p < 0 then [''minStockLevel''] else [])"

definition validProduct :: "product \<Rightarrow> bool" where
  "validProduct p = (productErrors p = [])"

text \<open>
  \<open>document.save()\<close>: the validators of the schema run, and the document is
  persisted when none fails; the caller's store update is that write. String setters
  (\<open>trim\<close>, \<open>uppercase\<close>, \<open>lowercase\<close>) and the \<open>updatedAt\<close> timestamp are not
  modelled.
\<close>

definition saveProduct :: "product \<Rightarrow> exn + product" where
  "saveProduct p = (if productErrors p = [] then Inr p else Inl (ValidationError (productErrors p)))"

definition isLowStock :: "product \<Rightarrow> bool" where
  "isLowStock this = (stockQuantity this \<le> minStockLevel this)"

text \<open>
  \<open>updateStock(quantity, operation = 'add')\<close>: an absent operation is \<open>'add'\<close>; any
  string other than \<open>'add'\<close> and \<open>'subtract'\<close> falls through to \<open>save()\<close>.
\<close>

definition updateStock :: "product \<Rightarrow> number \<Rightarrow> string option \<Rightarrow> exn + product" where
  "updateStock this quantity operation =
     (let op = (case operation of None \<Rightarrow> ''add'' | Some s \<Rightarrow> s) in
      if op = ''add'' then
        saveProduct (this\<lparr>stockQuantity := stockQuantity this + quantity\<rparr>)
      else if op = ''subtract'' then
        (if stockQuantity this \<ge> quantity then
           saveProduct (this\<lparr>stockQuantity := stockQuantity this - quantity\<rparr>)
         else Inl (Error ''Insufficient stock''))
      else saveProduct this)"

section \<open>Supplier (the supplier schema and its balance method)\<close>

record supplier =
  supplierName :: string
  code :: string
  creditLimit :: number
  currentBalance :: number
  rating :: number
  supplierActive :: bool

definition supplierErrors :: "supplier \<Rightarrow> string list" where
  "supplierErrors s =
     (if supplierName s = [] \<or> 100 < length (supplierName s) then [''name''] else []) @
     (if code s = [] \<or> 20 < length (code s) then [''code''] else []) @
     (if creditLimit s < 0 then [''creditLimit''] else []) @
     (if rating s < 1 \<or> 5 < rating s then [''rating''] else [])"

definition validSupplier :: "supplier \<Rightarrow> bool" where
  "validSupplier s = (supplierErrors s = [])"

definition saveSupplier :: "supplier \<Rightarrow> exn + supplier" where
  "saveSupplier s = (if supplierErrors s = [] then Inr s else Inl (ValidationError (supplierErrors s)))"

definition updateBalance :: "supplier \<Rightarrow> number \<Rightarrow> string option \<Rightarrow> exn + supplier" where
  "updateBalance this amount operation =
     (let op = (case operation of None \<Rightarrow> ''add'' | Some s \<Rightarrow> s) in
      if op = ''add'' then
        saveSupplier (this\<lparr>currentBalance := currentBalance this + amount\<rparr>)
      else if op = ''subtract'' then
        saveSupplier (this\<lparr>currentBalance := max 0 (currentBalance this - amount)\<rparr>)
      else saveSupplier this)"

definition availableCredit :: "supplier \<Rightarrow> number" where
  "availableCredit this = max 0 (creditLimit this - currentBalance this)"

definition isCreditLimitExceeded :: "supplier \<Rightarrow> number \<Rightarrow> bool" where
  "isCreditLimitExceeded this amount = (currentBalance this + amount > creditLimit this)"

section \<open>Dates\<close>

text \<open>
  A JavaScript \<open>Date\<close> in local time, by its calendar fields: \<open>getFullYear()\<close>,
  \<open>getMonth()\<close> (0 to 11), \<open>getDate()\<close> (1 to the length of the month) and the
  milliseconds since local midnight. Dates are compared chronologically, which on
  well-formed dates is the lexicographic order of the four fields.
\<close>

record jsdate =
  fullYear :: nat
  month :: nat
  dayOfMonth :: nat
  msOfDay :: nat

definition leapYear :: "nat \<Rightarrow> bool" where
  "leapYear y = ((y mod 4 = 0 \<and> y mod 100 \<noteq> 0) \<or> y mod 400 = 0)"

definition daysInMonth :: "nat \<Rightarrow> nat \<Rightarrow> nat" where
  "daysInMonth y m =
     (if m = 1 then (if leapYear y then 29 else 28)
      else if m = 3 \<or> m = 5 \<or> m = 8 \<or> m = 10 then 30 else 31)"


text \<open>
  \<open>new Date(year, monthIndex, day)\<close>: local midnight of that day. A day past the end
  of the month rolls over into the following month, which is all the numbering hook
  needs (\<open>getDate() + 1\<close>).
\<close>

definition newDate :: "nat \<Rightarrow> nat \<Rightarrow> nat \<Rightarrow> jsdate" where
  "newDate y m d =
     (if d \<le> daysInMonth y m then \<lparr>fullYear = y, month = m, dayOfMonth = d, msOfDay = 0\<rparr>
      else if m < 11 then \<lparr>fullYear = y, month = m + 1, dayOfMonth = d - daysInMonth y m, msOfDay = 0\<rparr>
      else \<lparr>fullYear = y + 1, month = 0, dayOfMonth = d - daysInMonth y m, msOfDay = 0\<rparr>)"

definition dateLess :: "jsdate \<Rightarrow> jsdate \<Rightarrow> bool" where
  "dateLess a b =
     (fullYear a < fullYear b \<or> (fullYear a = fullYear b \<and>
       (month a < month b \<or> (month a = month b \<and>
         (dayOfMonth a < dayOfMonth b \<or> (dayOfMonth a = dayOfMonth b \<and> msOfDay a < msOfDay b))))))"

definition dateGte :: "jsdate \<Rightarrow> jsdate \<Rightarrow> bool" where
  "dateGte a b = (\<not> dateLess a b)"

section \<open>Strings of numbers\<close>

definition digitChar :: "nat \<Rightarrow> char" where
  "digitChar n = ''0123456789'' ! (n mod 10)"

text \<open>\<open>String(n)\<close> for a non-negative integer: its decimal digits.\<close>

function stringOfNat :: "nat \<Rightarrow> string" where
  "stringOfNat n = (if n < 10 then [digitChar n] else stringOfNat (n div 10) @ [digitChar (n mod 10)])"
  by pat_completeness auto
termination
  by (relation "measure id") auto

declare stringOfNat.simps [simp del]

text \<open>\<open>s.padStart(len, c)\<close> with a one-character pad string.\<close>

definition padStart :: "string \<Rightarrow> nat \<Rightarrow> char \<Rightarrow> string" where
  "padStart s len c = replicate (len - length s) c @ s"

section \<open>Order (the order schema, its hook and its methods)\<close>

text \<open>
  A path that may hold no string: \<open>Undefined\<close> is a path that is not set (a key absent
  from a request body, or a field missing from a stored document), \<open>Null\<close> is the
  JSON \<open>null\<close>. The order status is modelled this way, because the status route
  assigns \<open>req.body.status\<close> unchecked.
\<close>

datatype 'a nullable = Undefined | Null | Value 'a

record customer =
  customerName :: string
  email :: string
  phone :: string

record orderItem =
  itemProduct :: objectId
  quantity :: number
  itemPrice :: number
  itemTotal :: number

record order =
  orderNumber :: string
  customer :: customer
  items :: "orderItem list"
  subtotal :: number
  tax :: number
  shipping :: number
  total :: number
  status :: "string nullable"
  paymentStatus :: string
  paymentMethod :: string
  orderNotes :: "string option"
  createdBy :: objectId
  shippedAt :: "jsdate option"
  deliveredAt :: "jsdate option"
  createdAt :: jsdate

definition statusEnum :: "string list" where
  "statusEnum = [''pending'', ''confirmed'', ''processing'', ''shipped'', ''delivered'', ''cancelled'']"

definition paymentStatusEnum :: "string list" where
  "paymentStatusEnum = [''pending'', ''paid'', ''failed'', ''refunded'']"

definition paymentMethodEnum :: "string list" where
  "paymentMethodEnum = [''cash'', ''credit_card'', ''bank_transfer'', ''online_payment'']"

text \<open>
  The validators of the order schema. \<open>status\<close> has an \<open>enum\<close> but is not
  \<open>required\<close>, and the enum validator accepts a path that is null or not set.
\<close>

definition itemErrors :: "orderItem \<Rightarrow> string list" where
  "itemErrors it =
     (if quantity it < 1 then [''items.quantity''] else []) @
     (if itemPrice it < 0 then [''items.price''] else []) @
     (if itemTotal it < 0 then [''items.total''] else [])"

definition orderErrors :: "order \<Rightarrow> string list" where
  "orderErrors ord =
     (if orderNumber ord = [] then [''orderNumber''] else []) @
     (if customerName (customer ord) = [] then [''customer.name''] else []) @
     (if email (customer ord) = [] then [''customer.email''] else []) @
     (if phone (customer ord) = [] then [''customer.phone''] else []) @
     concat (map itemErrors (items ord)) @
     (if subtotal ord < 0 then [''subtotal''] else []) @
     (if tax ord < 0 then [''tax''] else []) @
     (if shipping ord < 0 then [''shipping''] else []) @
     (if total ord < 0 then [''total''] else []) @
     (case status ord of
        Value s \<Rightarrow> if s \<in> set statusEnum then [] else [''status'']
      | _ \<Rightarrow> []) @
     (if paymentStatus ord \<in> set paymentStatusEnum then [] else [''paymentStatus'']) @
     (if paymentMethod ord \<in> set paymentMethodEnum then [] else [''paymentMethod'']) @
     (case orderNotes ord of None \<Rightarrow> [] | Some n \<Rightarrow> if 500 < length n then [''notes''] else [])"

definition validOrder :: "order \<Rightarrow> bool" where
  "validOrder ord = (orderErrors ord = [])"

text \<open>The persisted collections: products by id, and the orders with their ids.\<close>

record store =
  products :: "objectId \<rightharpoonup> product"
  orders :: "(objectId \<times> order) list"

text \<open>
  The \<open>$gte\<close>/\<open>$lt\<close> filter of the numbering hook on \<open>createdAt\<close>, and
  \<open>countDocuments\<close> with it.
\<close>

definition createdToday :: "jsdate \<Rightarrow> order \<Rightarrow> bool" where
  "createdToday date ord =
     (dateGte (createdAt ord) (newDate (fullYear date) (month date) (dayOfMonth date)) \<and>
      dateLess (createdAt ord) (newDate (fullYear date) (month date) (dayOfMonth date + 1)))"

definition countToday :: "(objectId \<times> order) list \<Rightarrow> jsdate \<Rightarrow> nat" where
  "countToday os date = length (filter (\<lambda>(i, ord). createdToday date ord) os)"

text \<open>
  The \<open>pre('save')\<close> hook. For a new document it assigns the order number from the
  current date and the count of today's orders; otherwise it does nothing.
\<close>

definition preSave :: "(objectId \<times> order) list \<Rightarrow> bool \<Rightarrow> jsdate \<Rightarrow> order \<Rightarrow> order" where
  "preSave os isNew date this =
     (if isNew then
        (let year = fullYear date;
             mon = padStart (stringOfNat (month date + 1)) 2 (CHR ''0'');
             day = padStart (stringOfNat (dayOfMonth date)) 2 (CHR ''0'');
             todayOrders = countToday os date
         in this\<lparr>orderNumber := ''ORD-'' @ stringOfNat year @ mon @ day @ ''-'' @
                      padStart (stringOfNat (todayOrders + 1)) 3 (CHR ''0'')\<rparr>)
      else this)"

text \<open>
  \<open>save()\<close> of an order that is already stored. Mongoose validates first, in a
  built-in \<open>pre('save')\<close> hook that precedes the hooks of the schema; then the
  numbering hook runs (and does nothing, the document not being new). The caller
  writes the result back under the same id.
\<close>

definition saveOrder :: "(objectId \<times> order) list \<Rightarrow> jsdate \<Rightarrow> order \<Rightarrow> exn + order" where
  "saveOrder os now this =
     (if orderErrors this \<noteq> [] then Inl (ValidationError (orderErrors this))
      else Inr (preSave os False now this))"

text \<open>
  \<open>Order.create(doc)\<close>, with the schema defaults already in \<open>doc\<close>. The
  validators run first, on the document as it was passed in: a document without an
  order number fails the \<open>required\<close> validator here, before the numbering hook is
  reached. Then the timestamp \<open>createdAt\<close> is set and the hook numbers the order
  (the hook's \<open>new Date()\<close> and the timestamp are the same instant \<open>now\<close>), and
  the insert fails on a duplicate \<open>_id\<close> or a duplicate \<open>orderNumber\<close> (the unique
  index).
\<close>

definition createDoc :: "(objectId \<times> order) list \<Rightarrow> objectId \<Rightarrow> jsdate \<Rightarrow> order \<Rightarrow> exn + order" where
  "createDoc os newId now doc0 =
     (if orderErrors doc0 \<noteq> [] then Inl (ValidationError (orderErrors doc0))
      else
        (let doc = preSave os True now (doc0\<lparr>createdAt := now\<rparr>) in
         if newId \<in> set (map fst os) then Inl (DuplicateKey ''_id'')
         else if orderNumber doc \<in> set (map (\<lambda>(i, ord). orderNumber ord) os)
         then Inl (DuplicateKey ''orderNumber'')
         else Inr doc))"

definition calculateTotals :: "order \<Rightarrow> order" where
  "calculateTotals this =
     (let this1 = this\<lparr>subtotal := foldl (\<lambda>sum item. sum + itemTotal item) 0 (items this)\<rparr>
      in this1\<lparr>total := subtotal this1 + tax this1 + shipping this1\<rparr>)"

text \<open>
  \<open>updateStatus(newStatus)\<close>. The argument is whatever the request body held under
  \<open>status\<close>: a string, \<open>null\<close>, or nothing at all.
\<close>

definition updateStatus :: "(objectId \<times> order) list \<Rightarrow> order \<Rightarrow> string nullable \<Rightarrow> jsdate \<Rightarrow> exn + order" where
  "updateStatus os this newStatus now =
     (let this1 = this\<lparr>status := newStatus\<rparr>;
          this2 = (if newStatus = Value ''shipped'' then this1\<lparr>shippedAt := Some now\<rparr>
                   else if newStatus = Value ''delivered'' then this1\<lparr>deliveredAt := Some now\<rparr>
                   else this1)
      in saveOrder os now this2)"

section \<open>The route handlers\<close>

text \<open>
  Each handler takes the store and returns its response with the store as the request
  left it. The authentication middleware is outside the model: the handlers are the
  bodies that run once \<open>protect\<close> and \<open>authorize\<close> have let the request through.
\<close>

subsection \<open>PUT /api/products/:id/stock\<close>

definition putStock :: "store \<Rightarrow> objectId \<Rightarrow> number \<Rightarrow> string option \<Rightarrow> (failure + product) \<times> store" where
  "putStock st oid qty operation =
     (case products st oid of
        None \<Rightarrow> (Inl (NotFound ''Product not found''), st)
      | Some product \<Rightarrow>
          (case updateStock product qty operation of
             Inl e \<Rightarrow> (Inl (ServerError e), st)
           | Inr updated \<Rightarrow> (Inr updated, st\<lparr>products := (products st)(oid \<mapsto> updated)\<rparr>)))"

text \<open>A sequence of stock requests for one product: the store after each request.\<close>

fun stockRequests :: "store \<Rightarrow> objectId \<Rightarrow> (number \<times> string option) list \<Rightarrow> store list" where
  "stockRequests st oid [] = []"
| "stockRequests st oid ((qty, operation) # rest) =
     (let st' = snd (putStock st oid qty operation) in st' # stockRequests st' oid rest)"

subsection \<open>POST /api/orders\<close>

record requestItem =
  reqProduct :: objectId
  reqQuantity :: number

record orderRequest =
  reqCustomer :: customer
  reqItems :: "requestItem list"
  reqTax :: "number option"
  reqShipping :: "number option"
  reqPaymentMethod :: string
  reqNotes :: "string option"

text \<open>
  The \<open>for (const item of items)\<close> loop, with \<open>orderItems\<close> and \<open>subtotal\<close> (here \<open>sub\<close>) as
  accumulators. A \<open>return res.status(400)\<close> leaves the loop with the store as the
  earlier iterations wrote it; so does an exception of \<open>updateStock\<close>, which the
  handler's \<open>catch\<close> turns into a 500.
\<close>

fun validateItems :: "store \<Rightarrow> requestItem list \<Rightarrow> orderItem list \<Rightarrow> number \<Rightarrow>
    (failure + orderItem list \<times> number) \<times> store" where
  "validateItems st [] orderItems sub = (Inr (orderItems, sub), st)"
| "validateItems st (item # rest) orderItems sub =
     (case products st (reqProduct item) of
        None \<Rightarrow> (Inl (ProductNotFound (reqProduct item)), st)
      | Some product \<Rightarrow>
          if stockQuantity product < reqQuantity item then
            (Inl (InsufficientStock (name product) (stockQuantity product)), st)
          else
            (let lineTotal = price product * reqQuantity item;
                 sub' = sub + lineTotal;
                 orderItems' = orderItems @ [\<lparr>itemProduct = reqProduct item, quantity = reqQuantity item,
                                              itemPrice = price product, itemTotal = lineTotal\<rparr>]
             in case updateStock product (reqQuantity item) (Some ''subtract'') of
                  Inl e \<Rightarrow> (Inl (ServerError e), st)
                | Inr updated \<Rightarrow>
                    validateItems (st\<lparr>products := (products st)(reqProduct item \<mapsto> updated)\<rparr>)
                      rest orderItems' sub'))"

text \<open>\<open>x || 0\<close> for an optional number.\<close>

definition orZero :: "number option \<Rightarrow> number" where
  "orZero x = (case x of None \<Rightarrow> 0 | Some v \<Rightarrow> v)"

definition postOrder :: "store \<Rightarrow> orderRequest \<Rightarrow> objectId \<Rightarrow> objectId \<Rightarrow> jsdate \<Rightarrow> (failure + order) \<times> store" where
  "postOrder st req user newId now =
     (case validateItems st (reqItems req) [] 0 of
        (Inl f, st') \<Rightarrow> (Inl f, st')
      | (Inr (orderItems, sub), st') \<Rightarrow>
          (let tot = sub + orZero (reqTax req) + orZero (reqShipping req) in
           case createDoc (orders st') newId now
                  \<lparr>orderNumber = [], customer = reqCustomer req, items = orderItems,
                   subtotal = sub, tax = orZero (reqTax req), shipping = orZero (reqShipping req),
                   total = tot, status = Value ''pending'', paymentStatus = ''pending'',
                   paymentMethod = reqPaymentMethod req, orderNotes = reqNotes req,
                   createdBy = user, shippedAt = None, deliveredAt = None, createdAt = now\<rparr> of
             Inl e \<Rightarrow> (Inl (ServerError e), st')
           | Inr ord \<Rightarrow> (Inr ord, st'\<lparr>orders := (newId, ord) # orders st'\<rparr>)))"

subsection \<open>PUT /api/orders/:id/status\<close>

text \<open>
  Reading a stored order: a path with a schema default that is missing from the stored
  document is given its default in the document that the query returns.
\<close>

definition hydrate :: "order \<Rightarrow> order" where
  "hydrate ord = (case status ord of Undefined \<Rightarrow> ord\<lparr>status := Value ''pending''\<rparr> | _ \<Rightarrow> ord)"

definition findById :: "(objectId \<times> order) list \<Rightarrow> objectId \<Rightarrow> order option" where
  "findById os oid = map_option hydrate (map_of os oid)"

definition writeBack :: "objectId \<Rightarrow> order \<Rightarrow> (objectId \<times> order) list \<Rightarrow> (objectId \<times> order) list" where
  "writeBack oid ord os = map (\<lambda>(i, old). if i = oid then (i, ord) else (i, old)) os"

text \<open>The response of a successful request is the order read back from the store.\<close>

definition putStatus :: "store \<Rightarrow> objectId \<Rightarrow> string nullable \<Rightarrow> jsdate \<Rightarrow> (failure + order) \<times> store" where
  "putStatus st oid newStatus now =
     (case findById (orders st) oid of
        None \<Rightarrow> (Inl (NotFound ''Order not found''), st)
      | Some ord \<Rightarrow>
          (case updateStatus (orders st) ord newStatus now of
             Inl e \<Rightarrow> (Inl (ServerError e), st)
           | Inr updated \<Rightarrow> (Inr (hydrate updated), st\<lparr>orders := writeBack oid updated (orders st)\<rparr>)))"

subsection \<open>PUT /api/orders/:id\<close>

text \<open>
  The request body, as the fields of an order it may carry. \<open>Object.assign\<close> copies
  the fields that are present (for the status, \<open>Undefined\<close> is a body without that
  key). A \<open>subtotal\<close> or \<open>total\<close> in the body is overwritten by
  \<open>calculateTotals\<close> and is left out.
\<close>

record orderBody =
  bodyCustomer :: "customer option"
  bodyItems :: "orderItem list option"
  bodyTax :: "number option"
  bodyShipping :: "number option"
  bodyStatus :: "string nullable"
  bodyPaymentStatus :: "string option"
  bodyPaymentMethod :: "string option"
  bodyNotes :: "string option"

definition assign :: "order \<Rightarrow> orderBody \<Rightarrow> order" where
  "assign ord body =
     ord\<lparr>customer := (case bodyCustomer body of None \<Rightarrow> customer ord | Some v \<Rightarrow> v),
         items := (case bodyItems body of None \<Rightarrow> items ord | Some v \<Rightarrow> v),
         tax := (case bodyTax body of None \<Rightarrow> tax ord | Some v \<Rightarrow> v),
         shipping := (case bodyShipping body of None \<Rightarrow> shipping ord | Some v \<Rightarrow> v),
         status := (case bodyStatus body of Undefined \<Rightarrow> status ord | v \<Rightarrow> v),
         paymentStatus := (case bodyPaymentStatus body of None \<Rightarrow> paymentStatus ord | Some v \<Rightarrow> v),
         paymentMethod := (case bodyPaymentMethod body of None \<Rightarrow> paymentMethod ord | Some v \<Rightarrow> v),
         orderNotes := (case bodyNotes body of None \<Rightarrow> orderNotes ord | Some v \<Rightarrow> Some v)\<rparr>"

definition putOrder :: "store \<Rightarrow> objectId \<Rightarrow> orderBody \<Rightarrow> jsdate \<Rightarrow> (failure + order) \<times> store" where
  "putOrder st oid body now =
     (case findById (orders st) oid of
        None \<Rightarrow> (Inl (NotFound ''Order not found''), st)
      | Some ord \<Rightarrow>
          if status ord \<noteq> Value ''pending'' then (Inl NotPending, st)
          else
            (case saveOrder (orders st) now (calculateTotals (assign ord body)) of
               Inl e \<Rightarrow> (Inl (ServerError e), st)
             | Inr updated \<Rightarrow> (Inr (hydrate updated), st\<lparr>orders := writeBack oid updated (orders st)\<rparr>)))"

subsection \<open>DELETE /api/orders/:id\<close>

text \<open>
  The loop that gives the stock back: a product that no longer exists is skipped; an
  exception of \<open>updateStock\<close> leaves the loop with the store as written so far.
\<close>

fun restoreStock :: "store \<Rightarrow> orderItem list \<Rightarrow> exn option \<times> store" where
  "restoreStock st [] = (None, st)"
| "restoreStock st (item # rest) =
     (case products st (itemProduct item) of
        None \<Rightarrow> restoreStock st rest
      | Some product \<Rightarrow>
          (case updateStock product (quantity item) (Some ''add'') of
             Inl e \<Rightarrow> (Some e, st)
           | Inr updated \<Rightarrow>
               restoreStock (st\<lparr>products := (products st)(itemProduct item \<mapsto> updated)\<rparr>) rest))"

definition deleteOne :: "objectId \<Rightarrow> (objectId \<times> order) list \<Rightarrow> (objectId \<times> order) list" where
  "deleteOne oid os = filter (\<lambda>(i, ord). i \<noteq> oid) os"

definition deleteOrder :: "store \<Rightarrow> objectId \<Rightarrow> (failure + string) \<times> store" where
  "deleteOrder st oid =
     (case findById (orders st) oid of
        None \<Rightarrow> (Inl (NotFound ''Order not found''), st)
      | Some ord \<Rightarrow>
          (case (if status ord = Value ''pending'' \<or> status ord = Value ''confirmed''
                 then restoreStock st (items ord) else (None, st)) of
             (Some e, st') \<Rightarrow> (Inl (ServerError e), st')
           | (None, st') \<Rightarrow> (Inr ''Order removed'', st'\<lparr>orders := deleteOne oid (orders st')\<rparr>)))"

section \<open>The refinement target of the order number\<close>



section \<open>Example data\<close>

definition exLaptop :: product where
  "exLaptop = \<lparr>name = ''Laptop'', sku = ''LAP001'', price = 10, cost = 6, stockQuantity = 5,
               minStockLevel = 2, isActive = True\<rparr>"

definition exMouse :: product where
  "exMouse = \<lparr>name = ''Mouse'', sku = ''MOU002'', price = 5, cost = 2, stockQuantity = 4,
              minStockLevel = 1, isActive = True\<rparr>"

definition exSupplier :: supplier where
  "exSupplier = \<lparr>supplierName = ''Acme'', code = ''ACME'', creditLimit = 1000, currentBalance = 250,
                 rating = 3, supplierActive = True\<rparr>"

definition exStore :: store where
  "exStore = \<lparr>products = [101 \<mapsto> exLaptop, 102 \<mapsto> exMouse], orders = []\<rparr>"

text \<open>The same store with the second product out of stock.\<close>

definition exStoreShort :: store where
  "exStoreShort = \<lparr>products = [101 \<mapsto> exLaptop, 102 \<mapsto> exMouse\<lparr>stockQuantity := 0\<rparr>], orders = []\<rparr>"

definition exCustomer :: customer where
  "exCustomer = \<lparr>customerName = ''ABC Corporation'', email = ''orders@abc.com'', phone = ''+1-555-1001''\<rparr>"

text \<open>Two of product 101 and one of product 102, tax 2 and shipping 3.\<close>

definition exRequest :: orderRequest where
  "exRequest = \<lparr>reqCustomer = exCustomer,
                reqItems = [\<lparr>reqProduct = 101, reqQuantity = 2\<rparr>, \<lparr>reqProduct = 102, reqQuantity = 1\<rparr>],
                reqTax = Some 2, reqShipping = Some 3, reqPaymentMethod = ''cash'', reqNotes = None\<rparr>"

text \<open>1 May 2024, 10:00, and the day after.\<close>

definition exNow :: jsdate where
  "exNow = \<lparr>fullYear = 2024, month = 4, dayOfMonth = 1, msOfDay = 36000000\<rparr>"

definition exNextDay :: jsdate where
  "exNextDay = \<lparr>fullYear = 2024, month = 4, dayOfMonth = 2, msOfDay = 36000000\<rparr>"

definition exOrder :: order where
  "exOrder = \<lparr>orderNumber = ''ORD-20240501-001'', customer = exCustomer,
              items = [\<lparr>itemProduct = 101, quantity = 2, itemPrice = 10, itemTotal = 20\<rparr>,
                       \<lparr>itemProduct = 102, quantity = 1, itemPrice = 5, itemTotal = 5\<rparr>],
              subtotal = 25, tax = 2, shipping = 3, total = 30, status = Value ''pending'',
              paymentStatus = ''pending'', paymentMethod = ''cash'', orderNotes = None,
              createdBy = 7, shippedAt = None, deliveredAt = None, createdAt = exNow\<rparr>"

text \<open>
  A seeded store: \<open>exOrder\<close> is stored, pending, and the products stand at three
  each, which is \<open>exStore\<close> less the order's lines.
\<close>

definition exStorePlaced :: store where
  "exStorePlaced = \<lparr>products = [101 \<mapsto> exLaptop\<lparr>stockQuantity := 3\<rparr>, 102 \<mapsto> exMouse\<lparr>stockQuantity := 3\<rparr>],
                    orders = [(500, exOrder)]\<rparr>"



text \<open>The placed order once it has been shipped.\<close>

definition exStoreShipped :: store where
  "exStoreShipped = exStorePlaced\<lparr>orders := [(500, exOrder\<lparr>status := Value ''shipped'', shippedAt := Some exNextDay\<rparr>)]\<rparr>"

text \<open>A request body that changes the tax to 5 and nothing else.\<close>

definition exBody :: orderBody where
  "exBody = \<lparr>bodyCustomer = None, bodyItems = None, bodyTax = Some 5, bodyShipping = None,
             bodyStatus = Undefined, bodyPaymentStatus = None, bodyPaymentMethod = None, bodyNotes = None\<rparr>"

section \<open>Facts about saving and stock updates\<close>

lemma validProduct_stock: "validProduct p \<Longrightarrow> 0 \<le> q \<Longrightarrow> validProduct (p\<lparr>stockQuantity := q\<rparr>)"
  by (simp add: validProduct_def productErrors_def split: if_splits)

lemma validProduct_nonneg: "validProduct p \<Longrightarrow> 0 \<le> stockQuantity p"
  by (simp add: validProduct_def productErrors_def split: if_splits)

lemma saveProduct_valid: "validProduct p \<Longrightarrow> saveProduct p = Inr p"
  by (simp add: saveProduct_def validProduct_def)

lemma saveProduct_Inr: "saveProduct p = Inr p' \<Longrightarrow> p' = p \<and> validProduct p"
  by (simp add: saveProduct_def validProduct_def split: if_splits)

lemma updateStock_subtract_Inr:
  "updateStock p q (Some ''subtract'') = Inr p' \<Longrightarrow> p' = p\<lparr>stockQuantity := stockQuantity p - q\<rparr>"
  by (auto simp: updateStock_def split: if_splits dest: saveProduct_Inr)

lemma updateStock_add_valid:
  "validProduct p \<Longrightarrow> 0 \<le> q \<Longrightarrow>
   updateStock p q (Some ''add'') = Inr (p\<lparr>stockQuantity := stockQuantity p + q\<rparr>)"
  by (simp add: updateStock_def saveProduct_valid validProduct_stock validProduct_nonneg)

lemma updateStock_Inr_nonneg: "updateStock p q operation = Inr p' \<Longrightarrow> 0 \<le> stockQuantity p'"
  by (auto simp: updateStock_def Let_def split: if_splits dest!: saveProduct_Inr validProduct_nonneg)

lemma putStock_keeps_nonneg:
  assumes "products st oid = Some p" "0 \<le> stockQuantity p"
  shows "\<exists>p'. products (snd (putStock st oid q operation)) oid = Some p' \<and> 0 \<le> stockQuantity p'"
  using assms by (auto simp: putStock_def split: sum.splits dest: updateStock_Inr_nonneg)

lemma exLaptop_valid: "validProduct exLaptop"
  by (simp add: validProduct_def productErrors_def exLaptop_def)

lemma exMouse_valid: "validProduct exMouse"
  by (simp add: validProduct_def productErrors_def exMouse_def)

lemma exStore_products:
  "products exStore 101 = Some exLaptop" "products exStore 102 = Some exMouse"
  by (simp_all add: exStore_def)

section \<open>Reserving stock\<close>

text \<open>
  Claim C3. Subtracting a quantity strictly greater than the product's on-hand quantity
  fails with the insufficient-stock error and leaves the on-hand quantity unchanged:
  \<open>updateStock\<close> throws before it writes, the stock route leaves the store as it
  was, and the order handler answers 400 at that line with the store as it was.
  Subtracting a quantity of at most the on-hand quantity from a product that satisfies
  its schema succeeds, and the saved on-hand quantity is the old one less exactly that
  quantity, in the stock route and in the order handler alike.
\<close>

theorem reserve_checks_stock:
  assumes "products st oid = Some p"
  shows "(stockQuantity p < q \<longrightarrow>
            updateStock p q (Some ''subtract'') = Inl (Error ''Insufficient stock'') \<and>
            putStock st oid q (Some ''subtract'') = (Inl (ServerError (Error ''Insufficient stock'')), st) \<and>
            validateItems st (\<lparr>reqProduct = oid, reqQuantity = q\<rparr> # rest) acc sub =
              (Inl (InsufficientStock (name p) (stockQuantity p)), st)) \<and>
         (q \<le> stockQuantity p \<and> validProduct p \<longrightarrow>
            updateStock p q (Some ''subtract'') = Inr (p\<lparr>stockQuantity := stockQuantity p - q\<rparr>) \<and>
            putStock st oid q (Some ''subtract'') =
              (Inr (p\<lparr>stockQuantity := stockQuantity p - q\<rparr>),
               st\<lparr>products := (products st)(oid \<mapsto> p\<lparr>stockQuantity := stockQuantity p - q\<rparr>)\<rparr>) \<and>
            validateItems st (\<lparr>reqProduct = oid, reqQuantity = q\<rparr> # rest) acc sub =
              validateItems (st\<lparr>products := (products st)(oid \<mapsto> p\<lparr>stockQuantity := stockQuantity p - q\<rparr>)\<rparr>)
                rest
                (acc @ [\<lparr>itemProduct = oid, quantity = q, itemPrice = price p, itemTotal = price p * q\<rparr>])
                (sub + price p * q))"
proof (intro conjI impI)
  assume lt: "stockQuantity p < q"
  then show a: "updateStock p q (Some ''subtract'') = Inl (Error ''Insufficient stock'')"
    by (simp add: updateStock_def)
  show "putStock st oid q (Some ''subtract'') = (Inl (ServerError (Error ''Insufficient stock'')), st)"
    using assms a by (simp add: putStock_def)
  show "validateItems st (\<lparr>reqProduct = oid, reqQuantity = q\<rparr> # rest) acc sub =
      (Inl (InsufficientStock (name p) (stockQuantity p)), st)"
    using assms lt by simp
next
  assume h: "q \<le> stockQuantity p \<and> validProduct p"
  then have "validProduct (p\<lparr>stockQuantity := stockQuantity p - q\<rparr>)"
    by (simp add: validProduct_stock)
  with h show b: "updateStock p q (Some ''subtract'') = Inr (p\<lparr>stockQuantity := stockQuantity p - q\<rparr>)"
    by (simp add: updateStock_def saveProduct_valid)
  show "putStock st oid q (Some ''subtract'') =
              (Inr (p\<lparr>stockQuantity := stockQuantity p - q\<rparr>),
               st\<lparr>products := (products st)(oid \<mapsto> p\<lparr>stockQuantity := stockQuantity p - q\<rparr>)\<rparr>)"
    using assms b by (simp add: putStock_def)
  show "validateItems st (\<lparr>reqProduct = oid, reqQuantity = q\<rparr> # rest) acc sub =
      validateItems (st\<lparr>products := (products st)(oid \<mapsto> p\<lparr>stockQuantity := stockQuantity p - q\<rparr>)\<rparr>)
        rest
        (acc @ [\<lparr>itemProduct = oid, quantity = q, itemPrice = price p, itemTotal = price p * q\<rparr>])
        (sub + price p * q)"
    using assms h b by (simp add: Let_def)
qed

theorem reserve_checks_stock_witness:
  "putStock exStore 101 7 (Some ''subtract'') = (Inl (ServerError (Error ''Insufficient stock'')), exStore) \<and>
   validateItems exStore [\<lparr>reqProduct = 101, reqQuantity = 7\<rparr>] [] 0 =
     (Inl (InsufficientStock ''Laptop'' 5), exStore) \<and>
   fst (putStock exStore 101 2 (Some ''subtract'')) = Inr (exLaptop\<lparr>stockQuantity := 3\<rparr>) \<and>
   map_option stockQuantity (products (snd (validateItems exStore [\<lparr>reqProduct = 101, reqQuantity = 2\<rparr>] [] 0)) 101) =
     Some 3"
proof -
  have lt: "stockQuantity exLaptop < 7" and le: "2 \<le> stockQuantity exLaptop" and
    three: "stockQuantity exLaptop - 2 = 3" and n: "name exLaptop = ''Laptop''" "stockQuantity exLaptop = 5"
    by (simp_all add: exLaptop_def)
  from reserve_checks_stock [OF exStore_products(1), of 7 "[]" "[]" 0] lt
  have "putStock exStore 101 7 (Some ''subtract'') = (Inl (ServerError (Error ''Insufficient stock'')), exStore)"
    "validateItems exStore [\<lparr>reqProduct = 101, reqQuantity = 7\<rparr>] [] 0 =
       (Inl (InsufficientStock ''Laptop'' 5), exStore)"
    by (simp_all add: n)
  moreover from reserve_checks_stock [OF exStore_products(1), of 2 "[]" "[]" 0] le exLaptop_valid
  have "fst (putStock exStore 101 2 (Some ''subtract'')) = Inr (exLaptop\<lparr>stockQuantity := 3\<rparr>)"
    "map_option stockQuantity (products (snd (validateItems exStore [\<lparr>reqProduct = 101, reqQuantity = 2\<rparr>] [] 0)) 101) =
       Some 3"
    by (simp_all add: three)
  ultimately show ?thesis by simp
qed

section \<open>The stock never goes negative\<close>

text \<open>
  Claim C4. Take a product whose persisted on-hand quantity is not negative, and any
  finite sequence of stock requests for it (subtractions and additions) with
  non-negative quantities. After each request of the sequence the product is still
  stored and its persisted on-hand quantity is greater than or equal to zero.
\<close>

theorem stock_never_negative:
  "products st oid = Some p \<Longrightarrow> 0 \<le> stockQuantity p \<Longrightarrow>
   list_all (\<lambda>(q, operation). 0 \<le> q) ops \<Longrightarrow>
   list_all (\<lambda>st'. \<exists>p'. products st' oid = Some p' \<and> 0 \<le> stockQuantity p') (stockRequests st oid ops)"
proof (induction ops arbitrary: st p)
  case Nil
  then show ?case by simp
next
  case (Cons a ops)
  obtain q operation where a: "a = (q, operation)" by (cases a)
  from putStock_keeps_nonneg [OF Cons.prems(1,2), of q operation]
  obtain p' where p': "products (snd (putStock st oid q operation)) oid = Some p'" "0 \<le> stockQuantity p'"
    by blast
  from Cons.prems(3) have "list_all (\<lambda>(q, operation). 0 \<le> q) ops" by simp
  from Cons.IH [OF p' this] p' show ?case by (simp add: a Let_def)
qed

theorem stock_never_negative_witness:
  "list_all (\<lambda>st'. \<exists>p'. products st' 101 = Some p' \<and> 0 \<le> stockQuantity p')
     (stockRequests exStore 101 [(2, Some ''subtract''), (9, Some ''subtract''), (4, Some ''add'')]) \<and>
   length (stockRequests exStore 101 [(2, Some ''subtract''), (9, Some ''subtract''), (4, Some ''add'')]) = 3"
proof -
  have "0 \<le> stockQuantity exLaptop" by (simp add: exLaptop_def)
  from stock_never_negative [OF exStore_products(1) this,
      of "[(2, Some ''subtract''), (9, Some ''subtract''), (4, Some ''add'')]"]
  show ?thesis by (simp add: Let_def)
qed

section \<open>Unknown operations\<close>

text \<open>
  Claim C10. For every operation string other than \<open>'add'\<close> and \<open>'subtract'\<close>, the
  stock update of a product and the balance update of a supplier (documents that
  satisfy their schemas) complete without an error and return the document with every
  field, the stock quantity and the current balance among them, as it was.
\<close>

theorem unknown_operation_changes_nothing:
  "operation \<noteq> ''add'' \<Longrightarrow> operation \<noteq> ''subtract'' \<Longrightarrow>
   (validProduct p \<longrightarrow> updateStock p q (Some operation) = Inr p) \<and>
   (validSupplier s \<longrightarrow> updateBalance s a (Some operation) = Inr s)"
  by (simp add: updateStock_def updateBalance_def saveProduct_def saveSupplier_def
      validProduct_def validSupplier_def)

theorem unknown_operation_changes_nothing_witness:
  "updateStock exLaptop 4 (Some ''multiply'') = Inr exLaptop \<and>
   updateBalance exSupplier 4 (Some ''multiply'') = Inr exSupplier"
proof -
  have "validSupplier exSupplier"
    by (simp add: validSupplier_def supplierErrors_def exSupplier_def)
  with unknown_operation_changes_nothing [of "''multiply''" exLaptop 4 exSupplier 4] exLaptop_valid
  show ?thesis by simp
qed

section \<open>Facts about the order handlers\<close>

lemma validateItems_Inl:
  "validateItems st rs acc sub = (Inl f, st') \<Longrightarrow> statusCode f = 400 \<Longrightarrow>
   \<exists>pre r post. rs = pre @ r # post \<and>
     (\<forall>pid. products st' pid =
        map_option (\<lambda>p. p\<lparr>stockQuantity := stockQuantity p -
            sum_list (map reqQuantity (filter (\<lambda>x. reqProduct x = pid) pre))\<rparr>) (products st pid)) \<and>
     orders st' = orders st \<and>
     (case products st' (reqProduct r) of
        None \<Rightarrow> f = ProductNotFound (reqProduct r)
      | Some p \<Rightarrow> stockQuantity p < reqQuantity r \<and> f = InsufficientStock (name p) (stockQuantity p))"
proof (induction rs arbitrary: st acc sub)
  case Nil
  then show ?case by simp
next
  case (Cons item rest)
  have idm: "\<And>pid. map_option (\<lambda>p. p\<lparr>stockQuantity := stockQuantity p -
            sum_list (map reqQuantity (filter (\<lambda>x. reqProduct x = pid) []))\<rparr>) (products st pid) = products st pid"
    by (simp add: option.map_ident)
  show ?case
  proof (cases "products st (reqProduct item)")
    case None
    with Cons.prems have "f = ProductNotFound (reqProduct item)" "st' = st" by simp_all
    with None idm show ?thesis
      by (intro exI [of _ "[]"] exI [of _ item] exI [of _ rest]) simp
  next
    case (Some product)
    show ?thesis
    proof (cases "stockQuantity product < reqQuantity item")
      case True
      with Cons.prems Some have "f = InsufficientStock (name product) (stockQuantity product)" "st' = st"
        by simp_all
      with Some True idm show ?thesis
        by (intro exI [of _ "[]"] exI [of _ item] exI [of _ rest]) simp
    next
      case False
      from Cons.prems Some False obtain updated where
        u: "updateStock product (reqQuantity item) (Some ''subtract'') = Inr updated"
        by (cases "updateStock product (reqQuantity item) (Some ''subtract'')") (auto simp: Let_def)
      let ?st1 = "st\<lparr>products := (products st)(reqProduct item \<mapsto> updated)\<rparr>"
      let ?it = "\<lparr>itemProduct = reqProduct item, quantity = reqQuantity item,
              itemPrice = price product, itemTotal = price product * reqQuantity item\<rparr>"
      from Cons.prems(1) Some False u have rec:
        "validateItems ?st1 rest (acc @ [?it]) (sub + price product * reqQuantity item) = (Inl f, st')"
        by (simp add: Let_def)
      have upd: "updated = product\<lparr>stockQuantity := stockQuantity product - reqQuantity item\<rparr>"
        using u by (rule updateStock_subtract_Inr)
      from Cons.IH [OF rec Cons.prems(2)] obtain pre r post where n:
        "rest = pre @ r # post"
        "\<forall>pid. products st' pid =
           map_option (\<lambda>p. p\<lparr>stockQuantity := stockQuantity p -
             sum_list (map reqQuantity (filter (\<lambda>x. reqProduct x = pid) pre))\<rparr>) (products ?st1 pid)"
        "orders st' = orders ?st1"
        "(case products st' (reqProduct r) of
            None \<Rightarrow> f = ProductNotFound (reqProduct r)
          | Some p \<Rightarrow> stockQuantity p < reqQuantity r \<and> f = InsufficientStock (name p) (stockQuantity p))"
        by blast
      have "\<forall>pid. products st' pid =
           map_option (\<lambda>p. p\<lparr>stockQuantity := stockQuantity p -
             sum_list (map reqQuantity (filter (\<lambda>x. reqProduct x = pid) (item # pre)))\<rparr>) (products st pid)"
        using n(2) Some upd by (simp add: diff_diff_eq)
      with n(1,3,4) show ?thesis
        by (intro exI [of _ "item # pre"] exI [of _ r] exI [of _ post]) simp
    qed
  qed
qed





lemma exShort_products:
  "products exStoreShort 101 = Some exLaptop"
  "products exStoreShort 102 = Some (exMouse\<lparr>stockQuantity := 0\<rparr>)"
  by (simp_all add: exStoreShort_def)

lemma exShort_post:
  "postOrder exStoreShort exRequest 7 500 exNow =
     (Inl (InsufficientStock ''Mouse'' 0),
      exStoreShort\<lparr>products := (products exStoreShort)(101 \<mapsto> exLaptop\<lparr>stockQuantity := 3\<rparr>)\<rparr>)"
proof -
  have "updateStock exLaptop 2 (Some ''subtract'') = Inr (exLaptop\<lparr>stockQuantity := 3\<rparr>)"
    using exLaptop_valid
    by (simp add: updateStock_def saveProduct_def validProduct_def productErrors_def exLaptop_def)
  moreover have "stockQuantity exLaptop = 5" "name exMouse = ''Mouse''"
    by (simp_all add: exLaptop_def exMouse_def)
  ultimately show ?thesis
    by (simp add: postOrder_def exRequest_def exShort_products)
qed

lemma exOrder_valid: "validOrder exOrder"
  by (simp add: validOrder_def orderErrors_def itemErrors_def statusEnum_def paymentStatusEnum_def
      paymentMethodEnum_def exOrder_def exCustomer_def)


section \<open>A failed order keeps the earlier decrements\<close>

text \<open>
  Claim C1, as the handler behaves. When the loop over the requested lines answers 400
  at some line (the product is not found, or its stock is below the requested
  quantity), the response is returned at once and nothing is released: for every
  product the persisted on-hand quantity is its value before the attempt less the
  quantities of the lines that precede the failing line; the failing line and the
  lines after it change nothing, and no order is stored.
\<close>

theorem failed_order_keeps_decrements:
  assumes "postOrder st req user newId now = (Inl f, st')" and "statusCode f = 400"
  shows "\<exists>pre r post. reqItems req = pre @ r # post \<and>
     (\<forall>pid. products st' pid =
        map_option (\<lambda>p. p\<lparr>stockQuantity := stockQuantity p -
            sum_list (map reqQuantity (filter (\<lambda>x. reqProduct x = pid) pre))\<rparr>) (products st pid)) \<and>
     orders st' = orders st \<and>
     (case products st' (reqProduct r) of
        None \<Rightarrow> f = ProductNotFound (reqProduct r)
      | Some p \<Rightarrow> stockQuantity p < reqQuantity r \<and> f = InsufficientStock (name p) (stockQuantity p))"
proof -
  from assms have "validateItems st (reqItems req) [] 0 = (Inl f, st')"
    by (auto simp: postOrder_def Let_def split: prod.splits sum.splits)
  from validateItems_Inl [OF this assms(2)] show ?thesis .
qed

theorem failed_order_keeps_decrements_witness:
  "statusCode (InsufficientStock ''Mouse'' 0) = 400 \<and>
   (\<exists>pre r post. reqItems exRequest = pre @ r # post \<and>
     (\<forall>pid. products (exStoreShort\<lparr>products := (products exStoreShort)(101 \<mapsto> exLaptop\<lparr>stockQuantity := 3\<rparr>)\<rparr>) pid =
        map_option (\<lambda>p. p\<lparr>stockQuantity := stockQuantity p -
            sum_list (map reqQuantity (filter (\<lambda>x. reqProduct x = pid) pre))\<rparr>) (products exStoreShort pid)) \<and>
     orders (exStoreShort\<lparr>products := (products exStoreShort)(101 \<mapsto> exLaptop\<lparr>stockQuantity := 3\<rparr>)\<rparr>) =
       orders exStoreShort \<and>
     (case products (exStoreShort\<lparr>products := (products exStoreShort)(101 \<mapsto> exLaptop\<lparr>stockQuantity := 3\<rparr>)\<rparr>)
             (reqProduct r) of
        None \<Rightarrow> InsufficientStock ''Mouse'' 0 = ProductNotFound (reqProduct r)
      | Some p \<Rightarrow> stockQuantity p < reqQuantity r \<and>
          InsufficientStock ''Mouse'' 0 = InsufficientStock (name p) (stockQuantity p)))"
proof -
  have c: "statusCode (InsufficientStock ''Mouse'' 0) = 400" by simp
  from failed_order_keeps_decrements [OF exShort_post c] c show ?thesis by blast
qed

text \<open>
  The claim as it is written fails: with five of product 101 on hand and none of
  product 102, an order for two of the first and one of the second is refused for
  insufficient stock, and product 101 is left with three on hand.
\<close>

theorem rollback_counterexample:
  "fst (postOrder exStoreShort exRequest 7 500 exNow) = Inl (InsufficientStock ''Mouse'' 0) \<and>
   map_option stockQuantity (products exStoreShort 101) = Some 5 \<and>
   map_option stockQuantity (products (snd (postOrder exStoreShort exRequest 7 500 exNow)) 101) = Some 3"
  by (simp add: exShort_post exShort_products exLaptop_def)

section \<open>Creating an order\<close>

lemma postOrder_never_stores: "postOrder st req user newId now \<noteq> (Inr ord, st')"
  by (auto simp: postOrder_def createDoc_def orderErrors_def Let_def split: prod.splits sum.splits)



section \<open>Cancelling an order\<close>

lemma putStatus_products: "products (snd (putStatus st oid newStatus now)) = products st"
  by (simp add: putStatus_def split: option.splits sum.splits)

lemma exPlaced_find: "findById (orders exStorePlaced) 500 = Some exOrder"
  by (simp add: findById_def hydrate_def exStorePlaced_def exOrder_def)

lemma orderErrors_status:
  "s \<in> set statusEnum \<Longrightarrow> orderErrors ord = [] \<Longrightarrow>
   orderErrors (ord\<lparr>status := Value s\<rparr>) = [] \<and>
   orderErrors (ord\<lparr>status := Value s, shippedAt := t\<rparr>) = [] \<and>
   orderErrors (ord\<lparr>status := Value s, deliveredAt := t\<rparr>) = []"
  by (simp add: orderErrors_def)

text \<open>
  Claim C2, evaluated on the code. In the seeded store the order 500 is pending, with
  a line of two of product 101 and a line of one of product 102, and both products
  stand at three on hand. Cancelling the order succeeds and stores the status
  \<open>cancelled\<close>, and the product collection is exactly as before the cancellation:
  product 101 is still at three, not at five, and product 102 is still at three, not
  at four.
\<close>

theorem cancel_leaves_stock_reserved:
  "findById (orders exStorePlaced) 500 = Some exOrder \<and>
   status exOrder = Value ''pending'' \<and>
   map (\<lambda>it. (itemProduct it, quantity it)) (items exOrder) = [(101, 2), (102, 1)] \<and>
   map_option stockQuantity (products exStorePlaced 101) = Some 3 \<and>
   map_option stockQuantity (products exStorePlaced 102) = Some 3 \<and>
   fst (putStatus exStorePlaced 500 (Value ''cancelled'') exNextDay) =
     Inr (exOrder\<lparr>status := Value ''cancelled''\<rparr>) \<and>
   products (snd (putStatus exStorePlaced 500 (Value ''cancelled'') exNextDay)) = products exStorePlaced \<and>
   map_option stockQuantity (products (snd (putStatus exStorePlaced 500 (Value ''cancelled'') exNextDay)) 101) =
     Some 3 \<and>
   map_option stockQuantity (products (snd (putStatus exStorePlaced 500 (Value ''cancelled'') exNextDay)) 102) =
     Some 3"
proof -
  have "orderErrors (exOrder\<lparr>status := Value ''cancelled''\<rparr>) = []"
    using exOrder_valid by (simp add: orderErrors_status validOrder_def statusEnum_def)
  then have "updateStatus (orders exStorePlaced) exOrder (Value ''cancelled'') exNextDay =
      Inr (exOrder\<lparr>status := Value ''cancelled''\<rparr>)"
    by (simp add: updateStatus_def saveOrder_def preSave_def)
  then have a: "fst (putStatus exStorePlaced 500 (Value ''cancelled'') exNextDay) =
      Inr (exOrder\<lparr>status := Value ''cancelled''\<rparr>)"
    by (simp add: putStatus_def exPlaced_find hydrate_def)
  have b: "map_option stockQuantity (products exStorePlaced 101) = Some 3"
    "map_option stockQuantity (products exStorePlaced 102) = Some 3"
    by (simp_all add: exStorePlaced_def)
  have d: "status exOrder = Value ''pending''"
    "map (\<lambda>it. (itemProduct it, quantity it)) (items exOrder) = [(101, 2), (102, 1)]"
    by (simp_all add: exOrder_def)
  show ?thesis using a b d exPlaced_find by (simp add: putStatus_products)
qed

section \<open>Status transitions\<close>

lemma findById_writeBack:
  "findById os oid = Some old \<Longrightarrow> findById (writeBack oid new os) oid = Some (hydrate new)"
  by (induction os) (auto simp: findById_def writeBack_def split: if_splits)

lemma status_error_reported:
  "s \<notin> set statusEnum \<Longrightarrow> ''status'' \<in> set (orderErrors (ord\<lparr>status := Value s\<rparr>))"
  by (simp add: orderErrors_def)

text \<open>
  Claim C9, as the code behaves. For a stored order and a requested status string
  outside the declared set \<open>pending, confirmed, processing, shipped, delivered,
  cancelled\<close>, the transition fails with a validation error that names the path
  \<open>status\<close>, and the store (the persisted status with it) is unchanged. For a stored
  order that satisfies its schema, the transition to \<open>shipped\<close> stores that status
  with the shipped timestamp set to the current time, and the transition to
  \<open>delivered\<close> stores that status with the delivered timestamp set to the current
  time.
\<close>

theorem status_transition:
  assumes "findById (orders st) oid = Some ord"
  shows "(s \<notin> set statusEnum \<longrightarrow>
           (\<exists>paths. ''status'' \<in> set paths \<and>
              updateStatus (orders st) ord (Value s) now = Inl (ValidationError paths) \<and>
              putStatus st oid (Value s) now = (Inl (ServerError (ValidationError paths)), st))) \<and>
         (validOrder ord \<longrightarrow>
            fst (putStatus st oid (Value ''shipped'') now) =
              Inr (ord\<lparr>status := Value ''shipped'', shippedAt := Some now\<rparr>) \<and>
            findById (orders (snd (putStatus st oid (Value ''shipped'') now))) oid =
              Some (ord\<lparr>status := Value ''shipped'', shippedAt := Some now\<rparr>) \<and>
            fst (putStatus st oid (Value ''delivered'') now) =
              Inr (ord\<lparr>status := Value ''delivered'', deliveredAt := Some now\<rparr>) \<and>
            findById (orders (snd (putStatus st oid (Value ''delivered'') now))) oid =
              Some (ord\<lparr>status := Value ''delivered'', deliveredAt := Some now\<rparr>))"
proof (intro conjI impI)
  assume bad: "s \<notin> set statusEnum"
  then have ns: "s \<noteq> ''shipped''" "s \<noteq> ''delivered''"
    by (auto simp: statusEnum_def)
  let ?paths = "orderErrors (ord\<lparr>status := Value s\<rparr>)"
  from bad have m: "''status'' \<in> set ?paths"
    by (rule status_error_reported)
  then have ne: "?paths \<noteq> []" by auto
  have u: "updateStatus (orders st) ord (Value s) now = Inl (ValidationError ?paths)"
    using ns ne by (simp add: updateStatus_def saveOrder_def)
  have p: "putStatus st oid (Value s) now = (Inl (ServerError (ValidationError ?paths)), st)"
    using assms u by (simp add: putStatus_def)
  from m u p show "\<exists>paths. ''status'' \<in> set paths \<and>
      updateStatus (orders st) ord (Value s) now = Inl (ValidationError paths) \<and>
      putStatus st oid (Value s) now = (Inl (ServerError (ValidationError paths)), st)"
    by blast
next
  assume v: "validOrder ord"
  let ?sh = "ord\<lparr>status := Value ''shipped'', shippedAt := Some now\<rparr>"
  let ?de = "ord\<lparr>status := Value ''delivered'', deliveredAt := Some now\<rparr>"
  have e: "''shipped'' \<in> set statusEnum" "''delivered'' \<in> set statusEnum"
    by (simp_all add: statusEnum_def)
  have h: "hydrate ?sh = ?sh" "hydrate ?de = ?de"
    by (simp_all add: hydrate_def)
  from v have "orderErrors ?sh = []"
    by (simp add: orderErrors_status e validOrder_def)
  then have u1: "updateStatus (orders st) ord (Value ''shipped'') now = Inr ?sh"
    by (simp add: updateStatus_def saveOrder_def preSave_def)
  from v have "orderErrors ?de = []"
    by (simp add: orderErrors_status e validOrder_def)
  then have u2: "updateStatus (orders st) ord (Value ''delivered'') now = Inr ?de"
    by (simp add: updateStatus_def saveOrder_def preSave_def)
  show "fst (putStatus st oid (Value ''shipped'') now) = Inr ?sh"
    using assms u1 h by (simp add: putStatus_def)
  show "findById (orders (snd (putStatus st oid (Value ''shipped'') now))) oid = Some ?sh"
    using assms u1 h by (simp add: putStatus_def findById_writeBack)
  show "fst (putStatus st oid (Value ''delivered'') now) = Inr ?de"
    using assms u2 h by (simp add: putStatus_def)
  show "findById (orders (snd (putStatus st oid (Value ''delivered'') now))) oid = Some ?de"
    using assms u2 h by (simp add: putStatus_def findById_writeBack)
qed

theorem status_transition_witness:
  "putStatus exStorePlaced 500 (Value ''bogus'') exNextDay =
     (Inl (ServerError (ValidationError [''status''])), exStorePlaced) \<and>
   fst (putStatus exStorePlaced 500 (Value ''shipped'') exNextDay) =
     Inr (exOrder\<lparr>status := Value ''shipped'', shippedAt := Some exNextDay\<rparr>) \<and>
   fst (putStatus exStorePlaced 500 (Value ''delivered'') exNextDay) =
     Inr (exOrder\<lparr>status := Value ''delivered'', deliveredAt := Some exNextDay\<rparr>)"
proof -
  have b: "''bogus'' \<notin> set statusEnum" by (simp add: statusEnum_def)
  have e: "orderErrors (exOrder\<lparr>status := Value ''bogus''\<rparr>) = [''status'']"
    by (simp add: orderErrors_def itemErrors_def statusEnum_def paymentStatusEnum_def
        paymentMethodEnum_def exOrder_def exCustomer_def)
  from status_transition [OF exPlaced_find, of "''bogus''" exNextDay] b
  obtain paths where
    p: "updateStatus (orders exStorePlaced) exOrder (Value ''bogus'') exNextDay = Inl (ValidationError paths)"
       "putStatus exStorePlaced 500 (Value ''bogus'') exNextDay =
          (Inl (ServerError (ValidationError paths)), exStorePlaced)"
    by blast
  from p(1) have "paths = [''status'']"
    by (simp add: updateStatus_def saveOrder_def e)
  with p(2) status_transition [OF exPlaced_find, of "''bogus''" exNextDay] exOrder_valid
  show ?thesis by simp
qed

text \<open>
  The claim as it is written fails: \<open>null\<close> is a requested status outside the declared
  set, and the transition to it succeeds. The pending order 500 of the seeded store is
  answered with 200, and its persisted status is overwritten with \<open>null\<close>.
\<close>

theorem null_status_counterexample:
  "map_option status (findById (orders exStorePlaced) 500) = Some (Value ''pending'') \<and>
   fst (putStatus exStorePlaced 500 Null exNextDay) = Inr (exOrder\<lparr>status := Null\<rparr>) \<and>
   map_option status (findById (orders (snd (putStatus exStorePlaced 500 Null exNextDay))) 500) = Some Null"
proof -
  have "orderErrors (exOrder\<lparr>status := Null\<rparr>) = []"
    using exOrder_valid by (simp add: validOrder_def orderErrors_def)
  then have u: "updateStatus (orders exStorePlaced) exOrder Null exNextDay = Inr (exOrder\<lparr>status := Null\<rparr>)"
    by (simp add: updateStatus_def saveOrder_def preSave_def)
  have h: "hydrate (exOrder\<lparr>status := Null\<rparr>) = exOrder\<lparr>status := Null\<rparr>"
    by (simp add: hydrate_def)
  have s: "status exOrder = Value ''pending''" by (simp add: exOrder_def)
  from u h s exPlaced_find show ?thesis
    by (simp add: putStatus_def findById_writeBack)
qed

section \<open>Editing an order\<close>

text \<open>
  Claim C7. The edit of an order (its line items, customer or amounts) succeeds only
  when the stored order has status \<open>pending\<close>. For a stored order with any other
  status the edit is refused with the 400 response "Cannot update order that is not in
  pending status", and the store, the order with it, is left unchanged.
\<close>

theorem edit_only_while_pending:
  "(findById (orders st) oid = Some ord \<and> status ord \<noteq> Value ''pending'' \<longrightarrow>
      putOrder st oid body now = (Inl NotPending, st) \<and> statusCode NotPending = 400) \<and>
   (putOrder st oid body now = (Inr updated, st') \<longrightarrow>
      (\<exists>old. findById (orders st) oid = Some old \<and> status old = Value ''pending''))"
  by (auto simp: putOrder_def split: option.splits if_splits sum.splits)

theorem edit_only_while_pending_witness:
  "putOrder exStoreShipped 500 exBody exNextDay = (Inl NotPending, exStoreShipped) \<and>
   fst (putOrder exStorePlaced 500 exBody exNextDay) = Inr (exOrder\<lparr>tax := 5, total := 33\<rparr>) \<and>
   (\<exists>old. findById (orders exStorePlaced) 500 = Some old \<and> status old = Value ''pending'')"
proof -
  let ?shipped = "exOrder\<lparr>status := Value ''shipped'', shippedAt := Some exNextDay\<rparr>"
  have f: "findById (orders exStoreShipped) 500 = Some ?shipped"
    by (simp add: findById_def hydrate_def exStoreShipped_def)
  have s: "status ?shipped \<noteq> Value ''pending''" by simp
  have c: "calculateTotals (assign exOrder exBody) = exOrder\<lparr>tax := 5, total := 33\<rparr>"
    by (simp add: calculateTotals_def assign_def exBody_def exOrder_def)
  have "orderErrors (exOrder\<lparr>tax := 5, total := 33\<rparr>) = []"
    by (simp add: orderErrors_def itemErrors_def statusEnum_def paymentStatusEnum_def
        paymentMethodEnum_def exOrder_def exCustomer_def)
  then have "saveOrder (orders exStorePlaced) exNextDay (exOrder\<lparr>tax := 5, total := 33\<rparr>) =
      Inr (exOrder\<lparr>tax := 5, total := 33\<rparr>)"
    by (simp add: saveOrder_def preSave_def)
  moreover have "status exOrder = Value ''pending''" "hydrate (exOrder\<lparr>tax := 5, total := 33\<rparr>) = exOrder\<lparr>tax := 5, total := 33\<rparr>"
    by (simp_all add: hydrate_def exOrder_def)
  ultimately have p: "putOrder exStorePlaced 500 exBody exNextDay =
      (Inr (exOrder\<lparr>tax := 5, total := 33\<rparr>),
       exStorePlaced\<lparr>orders := writeBack 500 (exOrder\<lparr>tax := 5, total := 33\<rparr>) (orders exStorePlaced)\<rparr>)"
    using c by (simp add: putOrder_def exPlaced_find)
  from edit_only_while_pending [of exStoreShipped 500 ?shipped exBody exNextDay] f s
  have "putOrder exStoreShipped 500 exBody exNextDay = (Inl NotPending, exStoreShipped)"
    by blast
  moreover from edit_only_while_pending [of exStorePlaced 500 exOrder exBody exNextDay] p
  have "\<exists>old. findById (orders exStorePlaced) 500 = Some old \<and> status old = Value ''pending''"
    by blast
  ultimately show ?thesis using p by simp
qed

section \<open>Deleting an order\<close>

lemma validOrder_quantities: "validOrder ord \<Longrightarrow> list_all (\<lambda>it. 0 \<le> quantity it) (items ord)"
proof -
  assume "validOrder ord"
  then have "concat (map itemErrors (items ord)) = []"
    by (simp add: validOrder_def orderErrors_def)
  then have "\<forall>it \<in> set (items ord). itemErrors it = []" by simp
  then have "\<forall>it \<in> set (items ord). 0 \<le> quantity it"
    by (auto simp: itemErrors_def split: if_splits)
  then show ?thesis by (simp add: list_all_iff)
qed

lemma restoreStock_valid:
  "list_all (\<lambda>it. 0 \<le> quantity it) its \<Longrightarrow>
   (\<forall>pid p. products st pid = Some p \<longrightarrow> validProduct p) \<Longrightarrow>
   \<exists>st'. restoreStock st its = (None, st') \<and> orders st' = orders st \<and>
     (\<forall>pid. products st' pid =
        map_option (\<lambda>p. p\<lparr>stockQuantity := stockQuantity p +
            sum_list (map quantity (filter (\<lambda>it. itemProduct it = pid) its))\<rparr>) (products st pid))"
proof (induction its arbitrary: st)
  case Nil
  then show ?case by (simp add: option.map_ident)
next
  case (Cons item rest)
  from Cons.prems(1) have q: "0 \<le> quantity item" and qs: "list_all (\<lambda>it. 0 \<le> quantity it) rest"
    by simp_all
  show ?case
  proof (cases "products st (itemProduct item)")
    case None
    from Cons.IH [OF qs Cons.prems(2)] obtain st' where s:
      "restoreStock st rest = (None, st')" "orders st' = orders st"
      "\<forall>pid. products st' pid =
        map_option (\<lambda>p. p\<lparr>stockQuantity := stockQuantity p +
            sum_list (map quantity (filter (\<lambda>it. itemProduct it = pid) rest))\<rparr>) (products st pid)"
      by blast
    have "\<forall>pid. products st' pid =
        map_option (\<lambda>p. p\<lparr>stockQuantity := stockQuantity p +
            sum_list (map quantity (filter (\<lambda>it. itemProduct it = pid) (item # rest)))\<rparr>) (products st pid)"
      using s(3) None by auto
    with s(1,2) None show ?thesis by simp
  next
    case (Some product)
    with Cons.prems(2) have vp: "validProduct product" by blast
    let ?updated = "product\<lparr>stockQuantity := stockQuantity product + quantity item\<rparr>"
    let ?st1 = "st\<lparr>products := (products st)(itemProduct item \<mapsto> ?updated)\<rparr>"
    from vp q have u: "updateStock product (quantity item) (Some ''add'') = Inr ?updated"
      by (rule updateStock_add_valid)
    from vp q have "validProduct ?updated"
      by (simp add: validProduct_stock validProduct_nonneg)
    with Cons.prems(2) have v1: "\<forall>pid p. products ?st1 pid = Some p \<longrightarrow> validProduct p"
      by simp
    from Cons.IH [OF qs v1] obtain st' where s:
      "restoreStock ?st1 rest = (None, st')" "orders st' = orders ?st1"
      "\<forall>pid. products st' pid =
        map_option (\<lambda>p. p\<lparr>stockQuantity := stockQuantity p +
            sum_list (map quantity (filter (\<lambda>it. itemProduct it = pid) rest))\<rparr>) (products ?st1 pid)"
      by blast
    have "\<forall>pid. products st' pid =
        map_option (\<lambda>p. p\<lparr>stockQuantity := stockQuantity p +
            sum_list (map quantity (filter (\<lambda>it. itemProduct it = pid) (item # rest)))\<rparr>) (products st pid)"
      using s(3) Some by (simp add: add.assoc)
    with s(1,2) Some u show ?thesis by simp
  qed
qed

lemma findById_deleteOne: "findById (deleteOne oid os) oid = None"
  by (induction os) (auto simp: findById_def deleteOne_def)

text \<open>
  Claim C8. Deleting a stored order whose status is \<open>pending\<close> or \<open>confirmed\<close> (the
  order and the stored products satisfying their schemas) first adds, for each line
  item, the line's quantity to the on-hand quantity of the line's product, so that
  every product ends with its old quantity plus the quantities of the order's lines
  for it, and then removes the order record. Deleting a stored order in any other
  status removes the record and leaves the whole product collection as it was.
\<close>

theorem delete_restores_stock:
  assumes "findById (orders st) oid = Some ord"
  shows "((status ord = Value ''pending'' \<or> status ord = Value ''confirmed'') \<and> validOrder ord \<and>
          (\<forall>pid p. products st pid = Some p \<longrightarrow> validProduct p) \<longrightarrow>
            (\<exists>st'. deleteOrder st oid = (Inr ''Order removed'', st') \<and>
               orders st' = deleteOne oid (orders st) \<and> findById (orders st') oid = None \<and>
               (\<forall>pid. products st' pid =
                  map_option (\<lambda>p. p\<lparr>stockQuantity := stockQuantity p +
                     sum_list (map quantity (filter (\<lambda>it. itemProduct it = pid) (items ord)))\<rparr>)
                   (products st pid)))) \<and>
         (status ord \<noteq> Value ''pending'' \<and> status ord \<noteq> Value ''confirmed'' \<longrightarrow>
            deleteOrder st oid = (Inr ''Order removed'', st\<lparr>orders := deleteOne oid (orders st)\<rparr>) \<and>
            findById (deleteOne oid (orders st)) oid = None)"
proof (intro conjI impI)
  assume h: "(status ord = Value ''pending'' \<or> status ord = Value ''confirmed'') \<and> validOrder ord \<and>
          (\<forall>pid p. products st pid = Some p \<longrightarrow> validProduct p)"
  then have "list_all (\<lambda>it. 0 \<le> quantity it) (items ord)"
    by (simp add: validOrder_quantities)
  from restoreStock_valid [OF this] h obtain st1 where s:
    "restoreStock st (items ord) = (None, st1)" "orders st1 = orders st"
    "\<forall>pid. products st1 pid =
        map_option (\<lambda>p. p\<lparr>stockQuantity := stockQuantity p +
            sum_list (map quantity (filter (\<lambda>it. itemProduct it = pid) (items ord)))\<rparr>) (products st pid)"
    by blast
  from assms h s(1) have "deleteOrder st oid = (Inr ''Order removed'', st1\<lparr>orders := deleteOne oid (orders st1)\<rparr>)"
    by (auto simp: deleteOrder_def)
  with s(2,3) show "\<exists>st'. deleteOrder st oid = (Inr ''Order removed'', st') \<and>
               orders st' = deleteOne oid (orders st) \<and> findById (orders st') oid = None \<and>
               (\<forall>pid. products st' pid =
                  map_option (\<lambda>p. p\<lparr>stockQuantity := stockQuantity p +
                     sum_list (map quantity (filter (\<lambda>it. itemProduct it = pid) (items ord)))\<rparr>)
                   (products st pid))"
    by (intro exI [of _ "st1\<lparr>orders := deleteOne oid (orders st1)\<rparr>"]) (simp add: findById_deleteOne)
next
  assume "status ord \<noteq> Value ''pending'' \<and> status ord \<noteq> Value ''confirmed''"
  with assms show "deleteOrder st oid = (Inr ''Order removed'', st\<lparr>orders := deleteOne oid (orders st)\<rparr>)"
    by (simp add: deleteOrder_def)
next
  show "findById (deleteOne oid (orders st)) oid = None" by (rule findById_deleteOne)
qed

theorem delete_restores_stock_witness:
  "(\<exists>st'. deleteOrder exStorePlaced 500 = (Inr ''Order removed'', st') \<and> orders st' = [] \<and>
      products st' 101 = Some exLaptop \<and> products st' 102 = Some exMouse) \<and>
   stockQuantity exLaptop = 5 \<and> map_option stockQuantity (products exStorePlaced 101) = Some 3 \<and>
   deleteOrder exStoreShipped 500 = (Inr ''Order removed'', exStoreShipped\<lparr>orders := []\<rparr>)"
proof -
  have st: "status exOrder = Value ''pending''" by (simp add: exOrder_def)
  have v: "\<forall>pid p. products exStorePlaced pid = Some p \<longrightarrow> validProduct p"
    using exLaptop_valid exMouse_valid
    by (auto simp: exStorePlaced_def validProduct_stock split: if_splits)
  have i: "items exOrder = [\<lparr>itemProduct = 101, quantity = 2, itemPrice = 10, itemTotal = 20\<rparr>,
                            \<lparr>itemProduct = 102, quantity = 1, itemPrice = 5, itemTotal = 5\<rparr>]"
    by (simp add: exOrder_def)
  have d: "deleteOne 500 (orders exStorePlaced) = []" "deleteOne 500 (orders exStoreShipped) = []"
    by (simp_all add: deleteOne_def exStorePlaced_def exStoreShipped_def)
  have p: "products exStorePlaced 101 = Some (exLaptop\<lparr>stockQuantity := 3\<rparr>)"
    "products exStorePlaced 102 = Some (exMouse\<lparr>stockQuantity := 3\<rparr>)"
    by (simp_all add: exStorePlaced_def)
  have r: "exLaptop\<lparr>stockQuantity := 5\<rparr> = exLaptop" "exMouse\<lparr>stockQuantity := 4\<rparr> = exMouse"
    "stockQuantity exLaptop = 5"
    by (simp_all add: exLaptop_def exMouse_def)
  from delete_restores_stock [OF exPlaced_find] st exOrder_valid v
  obtain st' where s: "deleteOrder exStorePlaced 500 = (Inr ''Order removed'', st')"
    "orders st' = deleteOne 500 (orders exStorePlaced)"
    "\<forall>pid. products st' pid =
                  map_option (\<lambda>p. p\<lparr>stockQuantity := stockQuantity p +
                     sum_list (map quantity (filter (\<lambda>it. itemProduct it = pid) (items exOrder)))\<rparr>)
                   (products exStorePlaced pid)"
    by blast
  from s(3) have "products st' 101 = Some exLaptop" "products st' 102 = Some exMouse"
    by (simp_all add: i p r)
  with s(1,2) have a: "\<exists>st'. deleteOrder exStorePlaced 500 = (Inr ''Order removed'', st') \<and> orders st' = [] \<and>
      products st' 101 = Some exLaptop \<and> products st' 102 = Some exMouse"
    by (simp add: d)
  let ?shipped = "exOrder\<lparr>status := Value ''shipped'', shippedAt := Some exNextDay\<rparr>"
  have f: "findById (orders exStoreShipped) 500 = Some ?shipped"
    by (simp add: findById_def hydrate_def exStoreShipped_def)
  from delete_restores_stock [OF f]
  have b: "deleteOrder exStoreShipped 500 = (Inr ''Order removed'', exStoreShipped\<lparr>orders := []\<rparr>)"
    by (simp add: d)
  from a b p r show ?thesis by simp
qed

section \<open>The order number\<close>









end
